theory Spec2Isabelle
  imports Main "HOL-Library.Multiset"
begin

section \<open>Python values and string primitives\<close>

text \<open>
  The pipeline orchestrator is written in Python. Strings are modelled as \<open>string\<close>
  with one \<open>char\<close> per code point of ASCII text; Python integers are \<open>int\<close>.
  A raised exception is the \<open>Inl\<close> branch of a sum. The fixed texts of the log and
  error messages, which the source writes in Russian, are rendered in English ASCII;
  the interpolated parts are kept.
\<close>

datatype py_error = ValueError string | TypeError string | AttributeError string

text \<open>\<open>str.isspace\<close> on one ASCII character: TAB, LF, VT, FF, CR, FS, GS, RS, US, space.\<close>

definition py_isspace :: "char \<Rightarrow> bool" where
  "py_isspace c = (of_char c \<in> {9, 10, 11, 12, 13, 28, 29, 30, 31, 32 :: nat})"

definition lstrip :: "string \<Rightarrow> string" where
  "lstrip s = dropWhile py_isspace s"

definition rstrip :: "string \<Rightarrow> string" where
  "rstrip s = rev (dropWhile py_isspace (rev s))"

definition strip :: "string \<Rightarrow> string" where
  "strip s = rstrip (lstrip s)"




definition startswith :: "string \<Rightarrow> string \<Rightarrow> bool" where
  "startswith s pre = (take (length pre) s = pre)"

subsection \<open>Decimal text of an integer: \<open>str(n)\<close> and \<open>int(s)\<close>\<close>



definition digit_char :: "nat \<Rightarrow> char" where
  "digit_char d = char_of (48 + d)"

fun str_nat :: "nat \<Rightarrow> string" where
  "str_nat n = (if n < 10 then [digit_char n] else str_nat (n div 10) @ [digit_char (n mod 10)])"

declare str_nat.simps [simp del]

definition str_int :: "int \<Rightarrow> string" where
  "str_int i = (if i < 0 then CHR ''-'' # str_nat (nat (- i)) else str_nat (nat i))"




section \<open>Container runner: the memory limit\<close>



section \<open>Structured logger\<close>

subsection \<open>More string primitives\<close>

text \<open>The substring test \<open>pat in s\<close>.\<close>

fun contains :: "string \<Rightarrow> string \<Rightarrow> bool" where
  "contains pat [] = (pat = [])"
| "contains pat (c # cs) = (startswith (c # cs) pat \<or> contains pat cs)"

text \<open>
  \<open>s.split(sep, maxsplit)\<close> for a non-empty separator: \<open>splitn sep m cur skip rest\<close>
  scans \<open>rest\<close> from the left with \<open>m\<close> splits still allowed, \<open>cur\<close> the part read so
  far and \<open>skip\<close> the characters of a matched separator still to be passed over.
  \<open>s.split(sep)\<close> allows as many splits as \<open>s\<close> has characters.
\<close>

fun splitn :: "string \<Rightarrow> nat \<Rightarrow> string \<Rightarrow> nat \<Rightarrow> string \<Rightarrow> string list" where
  "splitn sep m cur skip [] = [cur]"
| "splitn sep m cur (Suc k) (c # cs) = splitn sep m cur k cs"
| "splitn sep 0 cur 0 (c # cs) = splitn sep 0 (cur @ [c]) 0 cs"
| "splitn sep (Suc m) cur 0 (c # cs) =
     (if startswith (c # cs) sep then cur # splitn sep m [] (length sep - 1) cs
      else splitn sep (Suc m) (cur @ [c]) 0 cs)"


definition split_sep :: "string \<Rightarrow> string \<Rightarrow> string list" where
  "split_sep s sep = splitn sep (length s) [] 0 s"

text \<open>\<open>s.split()\<close>: the maximal runs of characters that are not whitespace.\<close>

fun words_acc :: "string \<Rightarrow> string \<Rightarrow> string list" where
  "words_acc cur [] = (if cur = [] then [] else [cur])"
| "words_acc cur (c # cs) =
     (if py_isspace c then (if cur = [] then words_acc [] cs else cur # words_acc [] cs)
      else words_acc (cur @ [c]) cs)"

definition split_ws :: "string \<Rightarrow> string list" where
  "split_ws s = words_acc [] s"

text \<open>\<open>sep.join(parts)\<close>.\<close>

fun join :: "string \<Rightarrow> string list \<Rightarrow> string" where
  "join sep [] = []"
| "join sep [p] = p"
| "join sep (p # q # ps) = p @ sep @ join sep (q # ps)"

subsection \<open>Writing\<close>

text \<open>
  Every write goes through \<open>_format_log_line\<close> and \<open>_write_line\<close>, which appends the
  line and a newline to the file. A \<open>log_record\<close> keeps the arguments of one such
  write; the log file is the list of records written so far, and its text is the
  lines they format to. The timestamp of a write comes from the wall clock, a
  parameter \<open>clock\<close> giving the text of \<open>datetime.now()\<close> for the \<open>n\<close>-th write.
\<close>

record log_record =
  lr_timestamp :: string
  lr_job_id :: int
  lr_step_name :: string
  lr_log_type :: string
  lr_content :: string
  lr_exit_code :: "int option"

type_synonym log_file = "log_record list"

definition format_log_line :: "log_record \<Rightarrow> string" where
  "format_log_line r =
     ''['' @ lr_timestamp r @ ''] JOB:'' @ str_int (lr_job_id r) @ '' STEP:'' @ lr_step_name r
       @ '' '' @ lr_log_type r @ '':'' @ lr_content r
       @ (case lr_exit_code r of None \<Rightarrow> [] | Some c \<Rightarrow> '' EXIT:'' @ str_int c)"

definition file_text :: "log_file \<Rightarrow> string" where
  "file_text lg = concat (map (\<lambda>r. format_log_line r @ [CHR 0x0A]) lg)"

definition write_line :: "(nat \<Rightarrow> string) \<Rightarrow> log_file \<Rightarrow> int \<Rightarrow> string \<Rightarrow> string \<Rightarrow> string
    \<Rightarrow> int option \<Rightarrow> log_file" where
  "write_line clock lg job_id step_name log_type content exit_code =
     lg @ [\<lparr>lr_timestamp = clock (length lg), lr_job_id = job_id, lr_step_name = step_name,
            lr_log_type = log_type, lr_content = content, lr_exit_code = exit_code\<rparr>]"

definition log_status :: "(nat \<Rightarrow> string) \<Rightarrow> log_file \<Rightarrow> int \<Rightarrow> string \<Rightarrow> string \<Rightarrow> log_file" where
  "log_status clock lg job_id step_name status =
     write_line clock lg job_id step_name ''STATUS'' status None"

definition log_output :: "(nat \<Rightarrow> string) \<Rightarrow> log_file \<Rightarrow> int \<Rightarrow> string \<Rightarrow> string \<Rightarrow> log_file" where
  "log_output clock lg job_id step_name content =
     foldl (\<lambda>l line_content.
              if strip line_content \<noteq> [] then write_line clock l job_id step_name ''LOG'' line_content None
              else l)
       lg (split_sep content [CHR 0x0A])"

definition log_error :: "(nat \<Rightarrow> string) \<Rightarrow> log_file \<Rightarrow> int \<Rightarrow> string \<Rightarrow> string \<Rightarrow> log_file" where
  "log_error clock lg job_id step_name error =
     write_line clock lg job_id step_name ''ERROR'' error None"

definition log_step_completion :: "(nat \<Rightarrow> string) \<Rightarrow> log_file \<Rightarrow> int \<Rightarrow> string \<Rightarrow> int \<Rightarrow> log_file" where
  "log_step_completion clock lg job_id step_name exit_code =
     write_line clock lg job_id step_name ''STATUS''
       (if exit_code = 0 then ''success'' else ''failed'') (Some exit_code)"

subsection \<open>Reading\<close>

text \<open>
  The file is read in text mode: a carriage return, alone or before a line feed, reads
  as a line feed, and iterating over the file yields its lines, each with its final
  line feed. A missing file and an empty file read the same (no line), so the empty
  list of records stands for both.
\<close>

fun universal_newlines :: "string \<Rightarrow> string" where
  "universal_newlines [] = []"
| "universal_newlines [c] = (if c = CHR 0x0D then [CHR 0x0A] else [c])"
| "universal_newlines (c # d # cs) =
     (if c = CHR 0x0D \<and> d = CHR 0x0A then CHR 0x0A # universal_newlines cs
      else if c = CHR 0x0D then CHR 0x0A # universal_newlines (d # cs)
      else c # universal_newlines (d # cs))"

fun lines_acc :: "string \<Rightarrow> string \<Rightarrow> string list" where
  "lines_acc cur [] = (if cur = [] then [] else [cur])"
| "lines_acc cur (c # cs) =
     (if c = CHR 0x0A then (cur @ [c]) # lines_acc [] cs else lines_acc (cur @ [c]) cs)"

definition read_lines :: "log_file \<Rightarrow> string list" where
  "read_lines lg = lines_acc [] (universal_newlines (file_text lg))"

text \<open>\<open>Logger.get_job_logs\<close>: the lines in which \<open>JOB:<job_id>\<close> occurs, stripped on the right
  and joined by line feeds.\<close>

definition get_job_logs :: "log_file \<Rightarrow> int \<Rightarrow> string" where
  "get_job_logs lg job_id =
     join [CHR 0x0A]
       (map rstrip (filter (\<lambda>line. contains (''JOB:'' @ str_int job_id) line) (read_lines lg)))"

text \<open>\<open>Logger.get_job_status\<close>: the word after the first \<open>STATUS:\<close> of the last line in which
  both \<open>JOB:<job_id>\<close> and \<open>STATUS:\<close> occur and such a word exists.\<close>

definition status_part :: "string \<Rightarrow> string option" where
  "status_part line =
     (case split_sep line ''STATUS:'' of
        _ # p # _ \<Rightarrow> (case split_ws p of [] \<Rightarrow> None | w # _ \<Rightarrow> if w \<noteq> [] then Some w else None)
      | _ \<Rightarrow> None)"

definition get_job_status :: "log_file \<Rightarrow> int \<Rightarrow> string option" where
  "get_job_status lg job_id =
     foldl (\<lambda>last_status line.
              if contains (''JOB:'' @ str_int job_id) line \<and> contains ''STATUS:'' line
              then (case status_part line of Some s \<Rightarrow> Some s | None \<Rightarrow> last_status)
              else last_status)
       None (read_lines lg)"

section \<open>Manifest parser\<close>

text \<open>
  A manifest is the value \<open>yaml.safe_load\<close> returns: null, a boolean, an integer, a
  string, a sequence or a mapping. A mapping is an association list in the order of
  the document, read with \<open>map_of\<close>; its keys are strings (a key of another type never
  equals a field name the code asks for). Floating point numbers and dates do not
  occur in the fields the code reads and are left out.
\<close>

datatype yaml = YNull | YBool bool | YInt int | YStr string | YList "yaml list"
  | YDict "(string \<times> yaml) list"

text \<open>\<open>d.get(key, default)\<close> and \<open>key in d\<close>.\<close>

definition dict_get :: "(string \<times> yaml) list \<Rightarrow> string \<Rightarrow> yaml \<Rightarrow> yaml" where
  "dict_get d k dflt = (case map_of d k of None \<Rightarrow> dflt | Some v \<Rightarrow> v)"

definition has_key :: "(string \<times> yaml) list \<Rightarrow> string \<Rightarrow> bool" where
  "has_key d k = (map_of d k \<noteq> None)"

text \<open>The truth value Python gives a manifest value in \<open>if v\<close> and \<open>not v\<close>.\<close>

fun truthy :: "yaml \<Rightarrow> bool" where
  "truthy YNull = False"
| "truthy (YBool b) = b"
| "truthy (YInt i) = (i \<noteq> 0)"
| "truthy (YStr s) = (s \<noteq> [])"
| "truthy (YList xs) = (xs \<noteq> [])"
| "truthy (YDict d) = (d \<noteq> [])"

record pipeline_config =
  pc_name :: yaml
  pc_jobs :: "(string \<times> yaml) list"

definition get_job :: "pipeline_config \<Rightarrow> string \<Rightarrow> yaml option" where
  "get_job pc job_name = map_of (pc_jobs pc) job_name"

definition list_jobs :: "pipeline_config \<Rightarrow> string list" where
  "list_jobs pc = map fst (pc_jobs pc)"

text \<open>
  \<open>YAMLParser.parse\<close>, from the loaded document on. The checks of one job are
  \<open>validate_job\<close>; the first job that fails one raises.
\<close>

definition step_has_image :: "yaml \<Rightarrow> bool" where
  "step_has_image step = (case step of YDict s \<Rightarrow> has_key s ''image'' | _ \<Rightarrow> False)"

fun check_steps :: "string \<Rightarrow> nat \<Rightarrow> yaml list \<Rightarrow> py_error option" where
  "check_steps job_name i [] = None"
| "check_steps job_name i (step # steps) =
     (case step of
        YDict s \<Rightarrow>
          if \<not> has_key s ''run''
          then Some (ValueError (''Job '' @ job_name @ '', step '' @ str_nat i @ '' must contain the field run''))
          else check_steps job_name (Suc i) steps
      | _ \<Rightarrow> Some (ValueError (''Job '' @ job_name @ '', step '' @ str_nat i @ '' must be a mapping'')))"

definition validate_job :: "string \<Rightarrow> yaml \<Rightarrow> py_error option" where
  "validate_job job_name job_config =
     (case job_config of
        YDict jc \<Rightarrow>
          (let job_type = dict_get jc ''type'' (YStr ''default'') in
           if job_type = YStr ''timer'' then
             (if \<not> has_key jc ''duration''
              then Some (ValueError (''Job '' @ job_name @ '' of type timer must contain the field duration''))
              else None)
           else if job_type = YStr ''confirmation'' then
             (if \<not> has_key jc ''message''
              then Some (ValueError (''Job '' @ job_name @ '' of type confirmation must contain the field message''))
              else None)
           else if job_type = YStr ''job_group'' then
             (if \<not> has_key jc ''jobs'' \<and> \<not> has_key jc ''job_groups''
              then Some (ValueError (''Job '' @ job_name @ '' of type job_group must contain jobs or job_groups''))
              else None)
           else if \<not> has_key jc ''steps'' then
             Some (ValueError (''Job '' @ job_name @ '' must contain the field steps''))
           else
             (case dict_get jc ''steps'' YNull of
                YList steps \<Rightarrow>
                  if \<not> has_key jc ''image'' \<and> \<not> list_ex step_has_image steps
                  then Some (ValueError (''Job '' @ job_name @ '' must contain image at job level or in steps''))
                  else check_steps job_name 0 steps
              | _ \<Rightarrow> Some (ValueError (''Job '' @ job_name @ ''.steps must be a list''))))
      | _ \<Rightarrow> Some (ValueError (''Job '' @ job_name @ '' must be a mapping'')))"

fun validate_jobs :: "(string \<times> yaml) list \<Rightarrow> py_error option" where
  "validate_jobs [] = None"
| "validate_jobs ((job_name, job_config) # rest) =
     (case validate_job job_name job_config of
        Some e \<Rightarrow> Some e
      | None \<Rightarrow> validate_jobs rest)"

definition parse :: "yaml \<Rightarrow> py_error + pipeline_config" where
  "parse config =
     (case config of
        YDict c \<Rightarrow>
          if \<not> has_key c ''name'' then Inl (ValueError ''The required field name is missing'')
          else if \<not> has_key c ''jobs'' then Inl (ValueError ''The required field jobs is missing'')
          else
            (case dict_get c ''jobs'' YNull of
               YDict jobs \<Rightarrow>
                 (case validate_jobs jobs of
                    Some e \<Rightarrow> Inl e
                  | None \<Rightarrow> Inr \<lparr>pc_name = dict_get c ''name'' YNull, pc_jobs = jobs\<rparr>)
             | _ \<Rightarrow> Inl (ValueError ''The field jobs must be a mapping''))
      | _ \<Rightarrow> Inl (ValueError ''The configuration must be a mapping''))"

text \<open>
  \<open>YAMLParser.extract_step_info\<close>, called by the job processor for each step it
  reaches: the image of the step, or else of the job (\<open>YNull\<close> when the job has none),
  must be a true value. The text of a manifest value in a message is given by
  \<open>str_of\<close>, Python's \<open>str\<close>.
\<close>

record step_info =
  si_name :: yaml
  si_image :: yaml
  si_run :: yaml
  si_env :: "(string \<times> yaml) list"

definition extract_step_info :: "(yaml \<Rightarrow> string) \<Rightarrow> yaml \<Rightarrow> yaml \<Rightarrow> py_error + step_info" where
  "extract_step_info str_of step job_image =
     (case step of
        YDict s \<Rightarrow>
          (let step_name = dict_get s ''name'' (YStr ''unnamed'');
               step_image = dict_get s ''image'' job_image;
               run_command = dict_get s ''run'' (YStr []);
               env_vars = dict_get s ''env'' (YDict [])
           in if \<not> truthy step_image
              then Inl (ValueError (''Step '' @ str_of step_name @ '' has no image and the job has no base image''))
              else Inr \<lparr>si_name = step_name, si_image = step_image, si_run = run_command,
                        si_env = (case env_vars of YDict e \<Rightarrow> e | _ \<Rightarrow> [])\<rparr>)
      | _ \<Rightarrow> Inl (AttributeError ''object has no attribute get''))"

subsection \<open>References between groups\<close>

text \<open>
  The names a job group refers to, as the group executor reads its entries: a string
  is a name, a mapping gives it under \<open>name\<close>, and any other entry is passed over.
\<close>

definition entry_name :: "yaml \<Rightarrow> yaml option" where
  "entry_name item =
     (case item of
        YStr s \<Rightarrow> Some (YStr s)
      | YDict d \<Rightarrow> Some (dict_get d ''name'' YNull)
      | _ \<Rightarrow> None)"

definition list_items :: "yaml \<Rightarrow> yaml list" where
  "list_items v = (case v of YList xs \<Rightarrow> xs | _ \<Rightarrow> [])"

definition group_refs :: "(string \<times> yaml) list \<Rightarrow> string \<Rightarrow> yaml list" where
  "group_refs jobs g =
     (case map_of jobs g of
        Some (YDict jc) \<Rightarrow>
          if dict_get jc ''type'' (YStr ''default'') = YStr ''job_group''
          then List.map_filter entry_name
                 (list_items (dict_get jc ''jobs'' (YList [])) @ list_items (dict_get jc ''job_groups'' (YList [])))
          else []
      | _ \<Rightarrow> [])"

definition has_unresolved_entry :: "(string \<times> yaml) list \<Rightarrow> bool" where
  "has_unresolved_entry jobs =
     list_ex (\<lambda>g. list_ex (\<lambda>n. case n of YStr s \<Rightarrow> map_of jobs s = None | _ \<Rightarrow> True) (group_refs jobs g))
       (map fst jobs)"

inductive group_reaches :: "(string \<times> yaml) list \<Rightarrow> string \<Rightarrow> string \<Rightarrow> bool" where
  ref: "YStr h \<in> set (group_refs jobs g) \<Longrightarrow> group_reaches jobs g h"
| step: "YStr h \<in> set (group_refs jobs g) \<Longrightarrow> group_reaches jobs h k \<Longrightarrow> group_reaches jobs g k"

definition has_group_cycle :: "(string \<times> yaml) list \<Rightarrow> bool" where
  "has_group_cycle jobs = (\<exists>g. group_reaches jobs g g)"

section \<open>Confirmation callbacks\<close>

text \<open>
  \<open>ConfirmationJobExecutor.pending_confirmations\<close> maps the key \<open><job_id>_<job_name>\<close> to
  the registration a waiting confirmation job made: its run, its name, the decision
  (none yet, confirmed or cancelled) and the event the job waits on.
\<close>

record confirmation =
  cf_job_id :: int
  cf_job_name :: string
  cf_confirmed :: "bool option"
  cf_event_set :: bool





section \<open>Container jobs\<close>

text \<open>
  \<open>JobProcessor.process_job\<close> for a job of the default kind, from the point where its
  configuration has been found and is none of timer, confirmation or job group.

  The container runtime is outside the program. What it answers is given by two
  parameters, which may depend on everything that happened before: \<open>pull_image w image\<close>
  tells whether \<open>DockerExecutor.pull_image\<close> acquires the image, and
  \<open>execute_step w info\<close> is the exit code and output \<open>DockerExecutor.execute_step\<close>
  returns. The \<open>world\<close> records the log file, the images asked for with the answer,
  and the steps run with what they returned.
\<close>

record world =
  w_log :: log_file
  w_pulled :: "(yaml \<times> bool) list"
  w_executed :: "(step_info \<times> int \<times> string) list"

record job_result =
  jr_status :: string
  jr_steps_completed :: nat
  jr_steps_failed :: nat
  jr_error :: "string option"

text \<open>
  The loop over the steps. The accumulator holds \<open>steps_completed\<close>, \<open>steps_failed\<close> and
  \<open>job_status\<close>. A step whose image is not acquired is counted as failed and the loop
  goes on with the next step (\<open>continue\<close>); a step that exits with a code other than 0
  is counted as failed and ends the loop (\<open>break\<close>).
\<close>

fun run_steps :: "(nat \<Rightarrow> string) \<Rightarrow> (yaml \<Rightarrow> string) \<Rightarrow> (world \<Rightarrow> yaml \<Rightarrow> bool)
    \<Rightarrow> (world \<Rightarrow> step_info \<Rightarrow> int \<times> string) \<Rightarrow> int \<Rightarrow> yaml \<Rightarrow> yaml list
    \<Rightarrow> nat \<times> nat \<times> string \<Rightarrow> world \<Rightarrow> (py_error + nat \<times> nat \<times> string) \<times> world" where
  "run_steps clock str_of pull_image execute_step job_id job_image [] acc w = (Inr acc, w)"
| "run_steps clock str_of pull_image execute_step job_id job_image (step # steps) acc w =
     (case extract_step_info str_of step job_image of
        Inl e \<Rightarrow> (Inl e, w)
      | Inr info \<Rightarrow>
          (let step_name = str_of (si_name info);
               w1 = w\<lparr>w_log := log_status clock (w_log w) job_id step_name ''running''\<rparr>;
               image_available = pull_image w1 (si_image info);
               w2 = w1\<lparr>w_pulled := w_pulled w1 @ [(si_image info, image_available)]\<rparr>
           in if \<not> image_available then
                run_steps clock str_of pull_image execute_step job_id job_image steps
                  (fst acc, Suc (fst (snd acc)), ''failed'')
                  (w2\<lparr>w_log := log_error clock (w_log w2) job_id step_name
                                 (''Could not get the Docker image: '' @ str_of (si_image info))\<rparr>)
              else
                (let exit_code = fst (execute_step w2 info);
                     logs = snd (execute_step w2 info);
                     w3 = w2\<lparr>w_executed := w_executed w2 @ [(info, exit_code, logs)]\<rparr>;
                     w4 = (if logs \<noteq> [] then w3\<lparr>w_log := log_output clock (w_log w3) job_id step_name logs\<rparr>
                           else w3);
                     w5 = w4\<lparr>w_log := log_step_completion clock (w_log w4) job_id step_name exit_code\<rparr>
                 in if exit_code = 0 then
                      run_steps clock str_of pull_image execute_step job_id job_image steps
                        (Suc (fst acc), fst (snd acc), snd (snd acc)) w5
                    else
                      (Inr (fst acc, Suc (fst (snd acc)), ''failed''),
                       w5\<lparr>w_log := log_error clock (w_log w5) job_id step_name
                                      (''Step finished with an error (exit code: '' @ str_int exit_code @ '')'')\<rparr>))))"

definition process_job :: "(nat \<Rightarrow> string) \<Rightarrow> (yaml \<Rightarrow> string) \<Rightarrow> (world \<Rightarrow> yaml \<Rightarrow> bool)
    \<Rightarrow> (world \<Rightarrow> step_info \<Rightarrow> int \<times> string) \<Rightarrow> int \<Rightarrow> string \<Rightarrow> (string \<times> yaml) list
    \<Rightarrow> world \<Rightarrow> (py_error + job_result) \<times> world" where
  "process_job clock str_of pull_image execute_step job_id job_name job_config w =
     (let job_image = dict_get job_config ''image'' YNull;
          steps = dict_get job_config ''steps'' (YList [])
      in if \<not> truthy steps then
           (Inr \<lparr>jr_status = ''failed'', jr_steps_completed = 0, jr_steps_failed = 0,
                  jr_error = Some ''The job has no steps''\<rparr>,
            w\<lparr>w_log := log_error clock (w_log w) job_id ''orchestrator''
                          (''Job '' @ job_name @ '' has no steps'')\<rparr>)
         else
           (let w1 = w\<lparr>w_log := log_status clock (w_log w) job_id job_name ''running''\<rparr> in
            case steps of
              YList ss \<Rightarrow>
                (case run_steps clock str_of pull_image execute_step job_id job_image ss
                        (0, 0, ''success'') w1 of
                   (Inl e, w2) \<Rightarrow> (Inl e, w2)
                 | (Inr acc, w2) \<Rightarrow>
                     (Inr \<lparr>jr_status = snd (snd acc), jr_steps_completed = fst acc,
                            jr_steps_failed = fst (snd acc), jr_error = None\<rparr>,
                      w2\<lparr>w_log := log_status clock (w_log w2) job_id job_name (snd (snd acc))\<rparr>))
            | YStr s \<Rightarrow> (Inl (AttributeError ''object has no attribute get''), w1)
            | YDict d \<Rightarrow> (Inl (AttributeError ''object has no attribute get''), w1)
            | _ \<Rightarrow> (Inl (TypeError ''object is not iterable''), w1)))"

text \<open>The records that \<open>log_step_completion\<close> writes are the ones with an exit code.\<close>

definition completion_records :: "log_file \<Rightarrow> log_record list" where
  "completion_records lg = filter (\<lambda>r. lr_exit_code r \<noteq> None) lg"


definition record_fields :: "log_record \<Rightarrow> int \<times> string \<times> string \<times> string \<times> int option" where
  "record_fields r = (lr_job_id r, lr_step_name r, lr_log_type r, lr_content r, lr_exit_code r)"

definition empty_world :: world where
  "empty_world = \<lparr>w_log = [], w_pulled = [], w_executed = []\<rparr>"

section \<open>Job groups\<close>

text \<open>
  \<open>JobGroupExecutor.execute\<close> creates one task per entry of \<open>jobs\<close> (a call of
  \<open>process_job_func\<close>) and one per entry of \<open>job_groups\<close> that names a job of type
  \<open>job_group\<close> (a call of itself), waits for them with
  \<open>asyncio.wait(..., return_when=ALL_COMPLETED)\<close> and counts their outcomes.

  A task settles in one of three ways: it returns a result, of which the executor
  reads the status; it raises; or it is cancelled. \<open>process_job_func\<close> is a parameter of
  the executor, and here a parameter giving the outcome of the task for each job name.
  The executor's own log lines do not bear on its result and are left out.
\<close>

datatype task_outcome = Returned string | Raised string | Cancelled

datatype task = JobTask yaml | GroupTask yaml "(string \<times> yaml) list"

record group_result =
  gr_status :: string
  gr_completed :: nat
  gr_failed :: nat

text \<open>Iterating over a manifest value in a \<open>for\<close> loop.\<close>

definition py_iter :: "yaml \<Rightarrow> py_error + yaml list" where
  "py_iter v =
     (case v of
        YList xs \<Rightarrow> Inr xs
      | YStr s \<Rightarrow> Inr (map (\<lambda>c. YStr [c]) s)
      | YDict d \<Rightarrow> Inr (map (\<lambda>kv. YStr (fst kv)) d)
      | _ \<Rightarrow> Inl (TypeError ''object is not iterable''))"

text \<open>A value can be a dictionary key unless it is a list or a mapping.\<close>

definition hashable :: "yaml \<Rightarrow> bool" where
  "hashable v = (case v of YList xs \<Rightarrow> False | YDict d \<Rightarrow> False | _ \<Rightarrow> True)"

text \<open>An entry is a name (not necessary) or a mapping with \<open>name\<close> and \<open>is_necessary\<close>;
  an entry of another type is passed over.\<close>

definition read_entry :: "yaml \<Rightarrow> (yaml \<times> bool) option" where
  "read_entry item =
     (case item of
        YStr s \<Rightarrow> Some (YStr s, False)
      | YDict d \<Rightarrow> Some (dict_get d ''name'' YNull, truthy (dict_get d ''is_necessary'' (YBool False)))
      | _ \<Rightarrow> None)"

text \<open>The first loop: a task for every entry; recording it under its name in
  \<open>task_info\<close> raises when the name cannot be a key.\<close>

definition job_task :: "yaml \<Rightarrow> py_error + (task \<times> bool \<times> yaml) option" where
  "job_task job_item =
     (case read_entry job_item of
        None \<Rightarrow> Inr None
      | Some (job_item_name, is_necessary) \<Rightarrow>
          if \<not> hashable job_item_name then Inl (TypeError ''unhashable type'')
          else Inr (Some (JobTask job_item_name, is_necessary, job_item_name)))"

fun job_tasks :: "yaml list \<Rightarrow> py_error + (task \<times> bool \<times> yaml) list" where
  "job_tasks [] = Inr []"
| "job_tasks (job_item # items) =
     (case job_task job_item of
        Inl e \<Rightarrow> Inl e
      | Inr None \<Rightarrow> job_tasks items
      | Inr (Some t) \<Rightarrow> (case job_tasks items of Inl e \<Rightarrow> Inl e | Inr ts \<Rightarrow> Inr (t # ts)))"

text \<open>\<open>pipeline_config.get_job(name)\<close> for a name read from an entry.\<close>

definition lookup_job :: "(string \<times> yaml) list \<Rightarrow> yaml \<Rightarrow> py_error + yaml option" where
  "lookup_job jobs name =
     (if \<not> hashable name then Inl (TypeError ''unhashable type'')
      else Inr (case name of YStr s \<Rightarrow> map_of jobs s | _ \<Rightarrow> None))"

text \<open>The second loop: a task only for an entry whose name is that of a job of type
  \<open>job_group\<close>; any other entry is left without a task.\<close>

definition group_task :: "(string \<times> yaml) list \<Rightarrow> yaml \<Rightarrow> py_error + (task \<times> bool \<times> yaml) option" where
  "group_task jobs group_item =
     (case read_entry group_item of
        None \<Rightarrow> Inr None
      | Some (group_name, is_necessary) \<Rightarrow>
          (case lookup_job jobs group_name of
             Inl e \<Rightarrow> Inl e
           | Inr None \<Rightarrow> Inr None
           | Inr (Some group_config) \<Rightarrow>
               if \<not> truthy group_config then Inr None
               else (case group_config of
                       YDict gc \<Rightarrow>
                         if dict_get gc ''type'' YNull = YStr ''job_group''
                         then Inr (Some (GroupTask group_name gc, is_necessary, group_name))
                         else Inr None
                     | _ \<Rightarrow> Inl (AttributeError ''object has no attribute get''))))"

fun group_tasks :: "(string \<times> yaml) list \<Rightarrow> yaml list \<Rightarrow> py_error + (task \<times> bool \<times> yaml) list" where
  "group_tasks jobs [] = Inr []"
| "group_tasks jobs (group_item # items) =
     (case group_task jobs group_item of
        Inl e \<Rightarrow> Inl e
      | Inr None \<Rightarrow> group_tasks jobs items
      | Inr (Some t) \<Rightarrow> (case group_tasks jobs items of Inl e \<Rightarrow> Inl e | Inr ts \<Rightarrow> Inr (t # ts)))"

definition build_tasks :: "(string \<times> yaml) list \<Rightarrow> (string \<times> yaml) list
    \<Rightarrow> py_error + (task \<times> bool \<times> yaml) list" where
  "build_tasks jobs job_config =
     (case py_iter (dict_get job_config ''jobs'' (YList [])) of
        Inl e \<Rightarrow> Inl e
      | Inr job_items \<Rightarrow>
          (case job_tasks job_items of
             Inl e \<Rightarrow> Inl e
           | Inr ts1 \<Rightarrow>
               (case py_iter (dict_get job_config ''job_groups'' (YList [])) of
                  Inl e \<Rightarrow> Inl e
                | Inr group_items \<Rightarrow>
                    (case group_tasks jobs group_items of
                       Inl e \<Rightarrow> Inl e
                     | Inr ts2 \<Rightarrow> Inr (ts1 @ ts2)))))"

text \<open>
  \<open>asyncio.wait\<close> with \<open>ALL_COMPLETED\<close> and no timeout: it raises on an empty list, and
  otherwise returns, once every task has settled, all the tasks as done and none as
  pending.
\<close>

definition asyncio_wait_all :: "'a list \<Rightarrow> py_error + 'a list \<times> 'a list" where
  "asyncio_wait_all fs =
     (if fs = [] then Inl (ValueError ''Set of Tasks/Futures is empty.'') else Inr (fs, []))"

text \<open>
  The loop over the done tasks. The accumulator holds \<open>completed\<close>, \<open>failed\<close>, \<open>status\<close>
  and, beside the values of the source, the names of the tasks on which \<open>cancel()\<close> has
  been called. A necessary task that returned another status than \<open>success\<close>, or
  raised, cancels the pending tasks. The done tasks, a set in the source, are taken in
  the order of their creation.
\<close>

record group_acc =
  ga_completed :: nat
  ga_failed :: nat
  ga_status :: string
  ga_cancel_calls :: "yaml list"

definition settle :: "yaml list \<Rightarrow> group_acc \<Rightarrow> task_outcome \<times> bool \<times> yaml \<Rightarrow> group_acc" where
  "settle pending acc t =
     (case fst t of
        Returned status \<Rightarrow>
          if status = ''success'' then acc\<lparr>ga_completed := Suc (ga_completed acc)\<rparr>
          else if fst (snd t)
               then acc\<lparr>ga_failed := Suc (ga_failed acc), ga_status := ''failed'',
                        ga_cancel_calls := ga_cancel_calls acc @ pending\<rparr>
               else acc\<lparr>ga_failed := Suc (ga_failed acc)\<rparr>
      | Cancelled \<Rightarrow>
          if fst (snd t) then acc\<lparr>ga_failed := Suc (ga_failed acc), ga_status := ''failed''\<rparr>
          else acc\<lparr>ga_failed := Suc (ga_failed acc)\<rparr>
      | Raised msg \<Rightarrow>
          if fst (snd t)
          then acc\<lparr>ga_failed := Suc (ga_failed acc), ga_status := ''failed'',
                   ga_cancel_calls := ga_cancel_calls acc @ pending\<rparr>
          else acc\<lparr>ga_failed := Suc (ga_failed acc)\<rparr>)"

definition collect :: "(task_outcome \<times> bool \<times> yaml) list \<Rightarrow> yaml list \<Rightarrow> group_acc" where
  "collect done pending =
     foldl (settle pending)
       \<lparr>ga_completed = 0, ga_failed = 0, ga_status = ''success'', ga_cancel_calls = []\<rparr> done"

text \<open>How a group that is a child settles for its parent.\<close>

definition outcome_of :: "(py_error + group_result) \<times> yaml list \<Rightarrow> task_outcome" where
  "outcome_of r = (case fst r of Inl e \<Rightarrow> Raised ''error'' | Inr res \<Rightarrow> Returned (gr_status res))"

text \<open>
  A group may name itself, directly or through other groups, and then creates tasks
  without end. \<open>execute\<close> takes the depth of nesting it may go to: the result is \<open>None\<close>
  when that depth does not suffice, and otherwise what the executor returns or
  raises, with the names of the tasks it called \<open>cancel()\<close> on.
\<close>

definition await_task :: "((string \<times> yaml) list \<Rightarrow> ((py_error + group_result) \<times> yaml list) option)
    \<Rightarrow> (yaml \<Rightarrow> task_outcome) \<Rightarrow> task \<times> bool \<times> yaml \<Rightarrow> (task_outcome \<times> bool \<times> yaml) option" where
  "await_task run_group process_job_func t =
     (case fst t of
        JobTask job_item_name \<Rightarrow> Some (process_job_func job_item_name, snd t)
      | GroupTask group_name group_config \<Rightarrow>
          map_option (\<lambda>r. (outcome_of r, snd t)) (run_group group_config))"

fun execute :: "nat \<Rightarrow> (yaml \<Rightarrow> task_outcome) \<Rightarrow> (string \<times> yaml) list \<Rightarrow> (string \<times> yaml) list
    \<Rightarrow> ((py_error + group_result) \<times> yaml list) option" where
  "execute 0 process_job_func jobs job_config = None"
| "execute (Suc depth) process_job_func jobs job_config =
     (case build_tasks jobs job_config of
        Inl e \<Rightarrow> Some (Inl e, [])
      | Inr all_tasks \<Rightarrow>
          (case asyncio_wait_all all_tasks of
             Inl e \<Rightarrow> Some (Inl e, [])
           | Inr (done, pending) \<Rightarrow>
               (case those (map (await_task (execute depth process_job_func jobs) process_job_func) done) of
                  None \<Rightarrow> None
                | Some settled \<Rightarrow>
                    (let acc = collect settled (map (\<lambda>t. snd (snd t)) pending)
                     in Some (Inr \<lparr>gr_status = ga_status acc, gr_completed = ga_completed acc,
                                    gr_failed = ga_failed acc\<rparr>,
                              ga_cancel_calls acc)))))"

text \<open>The outcomes of the tasks of a group, when all of them settle.\<close>

definition child_outcomes :: "nat \<Rightarrow> (yaml \<Rightarrow> task_outcome) \<Rightarrow> (string \<times> yaml) list
    \<Rightarrow> (task \<times> bool \<times> yaml) list \<Rightarrow> (task_outcome \<times> bool \<times> yaml) list option" where
  "child_outcomes depth process_job_func jobs tasks =
     those (map (await_task (execute depth process_job_func jobs) process_job_func) tasks)"

text \<open>An outcome that counts as a failure: anything but a returned \<open>success\<close>.\<close>

definition failed_outcome :: "task_outcome \<Rightarrow> bool" where
  "failed_outcome oc = (oc \<noteq> Returned ''success'')"

text \<open>An entry of \<open>job_groups\<close> that names no job of type \<open>job_group\<close>.\<close>

definition dangling_entry :: "(string \<times> yaml) list \<Rightarrow> yaml \<Rightarrow> bool" where
  "dangling_entry jobs item =
     (case read_entry item of
        None \<Rightarrow> False
      | Some (group_name, is_necessary) \<Rightarrow>
          hashable group_name \<and>
          (case group_name of
             YStr s \<Rightarrow>
               (case map_of jobs s of
                  None \<Rightarrow> True
                | Some (YDict gc) \<Rightarrow> gc = [] \<or> dict_get gc ''type'' YNull \<noteq> YStr ''job_group''
                | Some cfg \<Rightarrow> \<not> truthy cfg)
           | _ \<Rightarrow> True))"

section \<open>Inputs and predicates of the statements\<close>

text \<open>A container job without an image of its own, whose first step names an image and
  whose second step does not.\<close>

definition mixed_steps_manifest :: yaml where
  "mixed_steps_manifest =
     YDict [(''name'', YStr ''p''),
            (''jobs'', YDict [(''build'', YDict [(''steps'', YList
               [YDict [(''image'', YStr ''alpine''), (''run'', YStr ''true'')],
                YDict [(''name'', YStr ''compile''), (''run'', YStr ''make'')]])])])]"

text \<open>A group whose entry names no job of the pipeline, and two groups that refer to each
  other.\<close>

definition dangling_jobs :: "(string \<times> yaml) list" where
  "dangling_jobs =
     [(''all'', YDict [(''type'', YStr ''job_group''), (''jobs'', YList [YStr ''missing''])])]"

definition cyclic_jobs :: "(string \<times> yaml) list" where
  "cyclic_jobs =
     [(''deploy'', YDict [(''type'', YStr ''job_group''), (''job_groups'', YList [YStr ''verify''])]),
      (''verify'', YDict [(''type'', YStr ''job_group''),
                          (''job_groups'', YList [YDict [(''name'', YStr ''deploy''),
                                                          (''is_necessary'', YBool True)]])])]"

definition manifest_of :: "(string \<times> yaml) list \<Rightarrow> yaml" where
  "manifest_of jobs = YDict [(''name'', YStr ''p''), (''jobs'', YDict jobs)]"

text \<open>What the parser asks of a job group: the type, and one of the two keys.\<close>

definition group_with_entries :: "yaml \<Rightarrow> bool" where
  "group_with_entries j =
     (case j of
        YDict jc \<Rightarrow> dict_get jc ''type'' (YStr ''default'') = YStr ''job_group'' \<and>
                    (has_key jc ''jobs'' \<or> has_key jc ''job_groups'')
      | _ \<Rightarrow> False)"

text \<open>A container job of two steps, the first with an image that cannot be acquired; and a
  job whose only step has that image. The container runtime acquires every image but
  \<open>ghost\<close> and every step it runs exits with 0.\<close>

definition ghost_job :: "(string \<times> yaml) list" where
  "ghost_job =
     [(''steps'', YList [YDict [(''name'', YStr ''fetch''), (''image'', YStr ''ghost''),
                                (''run'', YStr ''true'')]])]"

definition two_step_job :: "(string \<times> yaml) list" where
  "two_step_job =
     [(''image'', YStr ''alpine''),
      (''steps'', YList [YDict [(''name'', YStr ''fetch''), (''image'', YStr ''ghost''),
                                (''run'', YStr ''true'')],
                         YDict [(''name'', YStr ''build''), (''run'', YStr ''make'')]])]"

definition str_of_name :: "yaml \<Rightarrow> string" where
  "str_of_name v = (case v of YStr s \<Rightarrow> s | _ \<Rightarrow> [])"

definition ghost_unavailable :: "world \<Rightarrow> yaml \<Rightarrow> bool" where
  "ghost_unavailable w img = (img \<noteq> YStr ''ghost'')"

definition exits_zero :: "world \<Rightarrow> step_info \<Rightarrow> int \<times> string" where
  "exits_zero w info = (0, ''done'')"

definition noon :: "nat \<Rightarrow> string" where
  "noon n = ''2024-01-01 12:00:00''"






section \<open>Properties of the string primitives\<close>


















section \<open>Memory limits are parsed base 1024\<close>





section \<open>Log queries select by a prefix of the run ID\<close>

text \<open>
  Claim C3 asks that \<open>get_job_logs\<close> for run \<open>R\<close> returns the lines written for \<open>R\<close>
  only, and that \<open>get_job_status\<close> never reports a status written for another run.
  Both readers test for the text \<open>JOB:<R>\<close> without the space that ends the run ID in a
  written line, so a line of run 10 is taken for a line of run 1. Here the file holds
  one line, the status \<open>running\<close> of step \<open>build\<close> of run 10, and nothing of run 1: the
  log of run 1 is that line, and the last status of run 1 is \<open>running\<close>.
\<close>

theorem get_job_logs_prefix_run_id:
  "get_job_logs (log_status (\<lambda>n. ''2024-01-01 00:00:00'') [] 10 ''build'' ''running'') 1
     = ''[2024-01-01 00:00:00] JOB:10 STEP:build STATUS:running'' \<and>
   get_job_status (log_status (\<lambda>n. ''2024-01-01 00:00:00'') [] 10 ''build'' ''running'') 1
     = Some ''running''"
  by code_simp

section \<open>The parser and the image of a step\<close>

text \<open>
  Claim C6 asks that a container job without an image of its own is rejected as soon as
  one of its steps has no image. The parser looks for one step with an image and stops
  at the first it finds: it accepts the job below, whose second step has none, and the
  job processor then raises on that step in \<open>extract_step_info\<close>.
\<close>

theorem parse_accepts_step_without_image:
  "parse mixed_steps_manifest =
     Inr \<lparr>pc_name = YStr ''p'',
          pc_jobs = [(''build'', YDict [(''steps'', YList
               [YDict [(''image'', YStr ''alpine''), (''run'', YStr ''true'')],
                YDict [(''name'', YStr ''compile''), (''run'', YStr ''make'')]])])]\<rparr> \<and>
   extract_step_info str_of_name (YDict [(''name'', YStr ''compile''), (''run'', YStr ''make'')]) YNull =
     Inl (ValueError ''Step compile has no image and the job has no base image'')"
  by (simp add: mixed_steps_manifest_def parse_def validate_job_def has_key_def dict_get_def
      step_has_image_def extract_step_info_def str_of_name_def)

section \<open>The parser does not follow group entries\<close>

lemma validate_group: "group_with_entries j \<Longrightarrow> validate_job n j = None"
  by (auto simp add: group_with_entries_def validate_job_def Let_def split: yaml.splits)

lemma validate_jobs_all:
  "list_all (\<lambda>(n, j). validate_job n j = None) jobs \<Longrightarrow> validate_jobs jobs = None"
  by (induction jobs) auto

lemma group_refs_deploy: "YStr ''verify'' \<in> set (group_refs cyclic_jobs ''deploy'')"
  by (simp add: cyclic_jobs_def group_refs_def dict_get_def list_items_def
      entry_name_def)

lemma group_refs_verify: "YStr ''deploy'' \<in> set (group_refs cyclic_jobs ''verify'')"
  by (simp add: cyclic_jobs_def group_refs_def dict_get_def list_items_def
      entry_name_def)

lemma cyclic_jobs_cycle: "has_group_cycle cyclic_jobs"
proof -
  from group_refs_deploy group_refs_verify have "group_reaches cyclic_jobs ''deploy'' ''deploy''"
    by (blast intro: group_reaches.intros)
  then show ?thesis unfolding has_group_cycle_def by blast
qed

lemma dangling_jobs_unresolved: "has_unresolved_entry dangling_jobs"
  by (simp add: dangling_jobs_def has_unresolved_entry_def group_refs_def dict_get_def
      list_items_def entry_name_def)

text \<open>
  Claim C7, as stated, fails: the manifest whose group \<open>all\<close> names the absent job
  \<open>missing\<close> is parsed, and so is the manifest whose groups \<open>deploy\<close> and \<open>verify\<close> name
  each other.
\<close>

theorem parse_accepts_dangling_and_cyclic:
  "has_unresolved_entry dangling_jobs \<and>
   parse (manifest_of dangling_jobs) = Inr \<lparr>pc_name = YStr ''p'', pc_jobs = dangling_jobs\<rparr> \<and>
   has_group_cycle cyclic_jobs \<and>
   parse (manifest_of cyclic_jobs) = Inr \<lparr>pc_name = YStr ''p'', pc_jobs = cyclic_jobs\<rparr>"
proof -
  have "parse (manifest_of dangling_jobs) = Inr \<lparr>pc_name = YStr ''p'', pc_jobs = dangling_jobs\<rparr>"
    by (simp add: manifest_of_def dangling_jobs_def parse_def validate_job_def has_key_def dict_get_def)
  moreover have "parse (manifest_of cyclic_jobs) = Inr \<lparr>pc_name = YStr ''p'', pc_jobs = cyclic_jobs\<rparr>"
    by (simp add: manifest_of_def cyclic_jobs_def parse_def validate_job_def has_key_def dict_get_def)
  ultimately show ?thesis
    using dangling_jobs_unresolved cyclic_jobs_cycle by simp
qed

text \<open>
  Claim C7, amended. The parser checks each job on its own fields and never looks a
  group entry up: a manifest with a \<open>name\<close> and a \<open>jobs\<close> mapping is parsed whenever each
  of its jobs passes the validation of its kind, and a job of type \<open>job_group\<close> passes
  as soon as it has a \<open>jobs\<close> or a \<open>job_groups\<close> key, whatever names its entries hold.
\<close>

theorem parse_without_reference_check:
  assumes "map_of c ''name'' = Some nm" and "map_of c ''jobs'' = Some (YDict jobs)"
    and "list_all (\<lambda>(n, j). group_with_entries j \<or> validate_job n j = None) jobs"
  shows "parse (YDict c) = Inr \<lparr>pc_name = nm, pc_jobs = jobs\<rparr>"
proof -
  from assms(3) have "list_all (\<lambda>(n, j). validate_job n j = None) jobs"
    by (auto simp add: list_all_iff validate_group)
  then have "validate_jobs jobs = None" by (rule validate_jobs_all)
  with assms(1,2) show ?thesis by (simp add: parse_def has_key_def dict_get_def)
qed

text \<open>The theorem at the two groups that name each other.\<close>

theorem parse_without_reference_check_witness:
  "list_all (\<lambda>(n, j). group_with_entries j \<or> validate_job n j = None) cyclic_jobs \<and>
   parse (YDict [(''name'', YStr ''release''), (''jobs'', YDict cyclic_jobs)])
     = Inr \<lparr>pc_name = YStr ''release'', pc_jobs = cyclic_jobs\<rparr>"
proof -
  have g: "list_all (\<lambda>(n, j). group_with_entries j \<or> validate_job n j = None) cyclic_jobs"
    by (simp add: cyclic_jobs_def group_with_entries_def dict_get_def has_key_def)
  from parse_without_reference_check [of "[(''name'', YStr ''release''), (''jobs'', YDict cyclic_jobs)]"
      "YStr ''release''" cyclic_jobs, OF _ _ g]
  show ?thesis using g by simp
qed

section \<open>Decoding a confirmation callback\<close>
















section \<open>Step-completion lines of a container job\<close>


lemma completion_records_append:
  "completion_records (a @ b) = completion_records a @ completion_records b"
  by (simp add: completion_records_def)









lemmas eval_defs = process_job_def dict_get_def extract_step_info_def Let_def
    log_status_def log_error_def log_step_completion_def log_output_def write_line_def
    completion_records_def empty_world_def str_of_name_def ghost_unavailable_def exits_zero_def
    two_step_job_def ghost_job_def

text \<open>
  Claim C2 asks that a step whose image cannot be acquired stops the job. The step is
  counted as failed and the job is marked failed, but the loop goes on: in the job
  below the image of the first step, \<open>fetch\<close>, is not acquired, and the second step,
  \<open>build\<close>, is still run and completes. No exit code is recorded for \<open>fetch\<close>.
\<close>

theorem process_job_runs_step_after_image_failure:
  "fst (process_job noon str_of_name ghost_unavailable exits_zero 1 ''ci'' two_step_job empty_world)
     = Inr \<lparr>jr_status = ''failed'', jr_steps_completed = 1, jr_steps_failed = 1, jr_error = None\<rparr> \<and>
   w_pulled (snd (process_job noon str_of_name ghost_unavailable exits_zero 1 ''ci'' two_step_job empty_world))
     = [(YStr ''ghost'', False), (YStr ''alpine'', True)] \<and>
   map (\<lambda>x. (si_name (fst x), fst (snd x)))
       (w_executed (snd (process_job noon str_of_name ghost_unavailable exits_zero 1 ''ci'' two_step_job empty_world)))
     = [(YStr ''build'', 0)] \<and>
   map record_fields
       (completion_records (w_log (snd (process_job noon str_of_name ghost_unavailable exits_zero 1 ''ci'' two_step_job empty_world))))
     = [(1, ''build'', ''STATUS'', ''success'', Some 0)]"
  by (simp add: eval_defs record_fields_def split_sep_def startswith_def strip_def lstrip_def rstrip_def py_isspace_def)




section \<open>The result of a job group\<close>


lemma settle_completed:
  "ga_completed (settle pending acc t) = ga_completed acc + (if failed_outcome (fst t) then 0 else 1)"
  by (auto simp add: settle_def failed_outcome_def split: task_outcome.splits)

lemma settle_failed:
  "ga_failed (settle pending acc t) = ga_failed acc + (if failed_outcome (fst t) then 1 else 0)"
  by (auto simp add: settle_def failed_outcome_def split: task_outcome.splits)

lemma settle_status:
  "ga_status (settle pending acc t) =
     (if fst (snd t) \<and> failed_outcome (fst t) then ''failed'' else ga_status acc)"
  by (auto simp add: settle_def failed_outcome_def split: task_outcome.splits)

lemma settle_no_pending: "ga_cancel_calls (settle [] acc t) = ga_cancel_calls acc"
  by (auto simp add: settle_def split: task_outcome.splits)

lemma foldl_settle_completed:
  "ga_completed (foldl (settle pending) acc ts) =
     ga_completed acc + length (filter (\<lambda>t. \<not> failed_outcome (fst t)) ts)"
  by (induction ts arbitrary: acc) (simp_all add: settle_completed)

lemma foldl_settle_failed:
  "ga_failed (foldl (settle pending) acc ts) =
     ga_failed acc + length (filter (\<lambda>t. failed_outcome (fst t)) ts)"
  by (induction ts arbitrary: acc) (simp_all add: settle_failed)

lemma foldl_settle_status:
  "ga_status (foldl (settle pending) acc ts) =
     (if list_ex (\<lambda>t. fst (snd t) \<and> failed_outcome (fst t)) ts \<or> ga_status acc = ''failed''
      then ''failed'' else ga_status acc)"
  by (induction ts arbitrary: acc) (simp_all add: settle_status)

lemma foldl_settle_no_pending:
  "ga_cancel_calls (foldl (settle []) acc ts) = ga_cancel_calls acc"
  by (induction ts arbitrary: acc) (simp_all add: settle_no_pending)


lemma collect_closed_form:
  "collect settled [] =
     \<lparr>ga_completed = length (filter (\<lambda>t. \<not> failed_outcome (fst t)) settled),
      ga_failed = length (filter (\<lambda>t. failed_outcome (fst t)) settled),
      ga_status = (if list_ex (\<lambda>t. fst (snd t) \<and> failed_outcome (fst t)) settled
                   then ''failed'' else ''success''),
      ga_cancel_calls = []\<rparr>"
  by (rule group_acc.equality)
     (simp_all add: collect_def foldl_settle_completed foldl_settle_failed foldl_settle_status
       foldl_settle_no_pending)

text \<open>\<open>asyncio.wait\<close> returns the done tasks as a set, which the loop goes through in no
  set order: the counts and the status are the same in every order.\<close>

lemma collect_order_independent:
  assumes "mset settled = mset settled'"
  shows "collect settled [] = collect settled' []"
proof -
  have l: "length (filter P settled) = length (filter P settled')" for P
    using assms by (metis mset_filter size_mset)
  have s: "set settled = set settled'" using assms by (rule mset_eq_setD)
  show ?thesis
    unfolding collect_closed_form by (simp add: l list_ex_iff s)
qed


text \<open>No execution of a group calls \<open>cancel()\<close> on a task.\<close>

lemma execute_never_cancels:
  "execute depth process_job_func jobs job_config = Some (r, cancel_calls) \<Longrightarrow> cancel_calls = []"
  by (cases depth)
     (auto simp add: asyncio_wait_all_def collect_def foldl_settle_no_pending Let_def
       split: sum.splits option.splits if_splits)


text \<open>These are the only executions that return a result.\<close>

lemma execute_returns_only_settled:
  assumes "execute depth process_job_func jobs job_config = Some (Inr r, cancel_calls)"
  shows "\<exists>d tasks settled. depth = Suc d \<and> build_tasks jobs job_config = Inr tasks \<and> tasks \<noteq> [] \<and>
           child_outcomes d process_job_func jobs tasks = Some settled"
  using assms
  by (cases depth)
     (auto simp add: asyncio_wait_all_def child_outcomes_def split: sum.splits option.splits if_splits)


section \<open>Group entries that name no group\<close>

lemma group_task_dangling:
  assumes "dangling_entry jobs item"
  shows "group_task jobs item = Inr None"
proof (cases "read_entry item")
  case None
  with assms show ?thesis by (simp add: dangling_entry_def)
next
  case (Some e)
  obtain group_name is_necessary where e: "e = (group_name, is_necessary)" by (cases e)
  from assms Some e have h: "hashable group_name" by (simp add: dangling_entry_def)
  show ?thesis
  proof (cases group_name)
    case (YStr s)
    show ?thesis
    proof (cases "map_of jobs s")
      case None
      with Some e YStr show ?thesis by (simp add: group_task_def lookup_job_def hashable_def)
    next
      case (Some cfg)
      with assms \<open>read_entry item = Some e\<close> e YStr show ?thesis
        by (cases cfg) (auto simp add: dangling_entry_def group_task_def lookup_job_def hashable_def)
    qed
  qed (use Some e h in \<open>simp_all add: group_task_def lookup_job_def\<close>)
qed

lemma group_tasks_skips:
  "dangling_entry jobs item \<Longrightarrow> group_tasks jobs (item # items) = group_tasks jobs items"
  by (simp add: group_task_dangling)





end
